theory Spec2Isabelle
  imports Complex_Main
begin

section \<open>Strings as the JavaScript source uses them\<close>

text \<open>
  Strings are character lists. The helpers below are the String.prototype methods the
  accessibility code calls, on ASCII text.
\<close>

definition isSpace :: "char \<Rightarrow> bool" where
  "isSpace c = (c = CHR '' '' \<or> c = CHR 0x09 \<or> c = CHR 0x0A \<or> c = CHR 0x0B \<or> c = CHR 0x0C \<or> c = CHR 0x0D)"

definition isDigit :: "char \<Rightarrow> bool" where
  "isDigit c = (48 \<le> (of_char c :: nat) \<and> (of_char c :: nat) \<le> 57)"

definition isUpper :: "char \<Rightarrow> bool" where
  "isUpper c = (65 \<le> (of_char c :: nat) \<and> (of_char c :: nat) \<le> 90)"

definition isLower :: "char \<Rightarrow> bool" where
  "isLower c = (97 \<le> (of_char c :: nat) \<and> (of_char c :: nat) \<le> 122)"

text \<open>The regular expression class \<open>\w\<close>: letters, digits and the underscore.\<close>

definition isWord :: "char \<Rightarrow> bool" where
  "isWord c = (isUpper c \<or> isLower c \<or> isDigit c \<or> c = CHR ''_'')"

definition lowerChar :: "char \<Rightarrow> char" where
  "lowerChar c = (if isUpper c then char_of ((of_char c :: nat) + 32) else c)"

definition upperChar :: "char \<Rightarrow> char" where
  "upperChar c = (if isLower c then char_of ((of_char c :: nat) - 32) else c)"

definition toLowerCase :: "string \<Rightarrow> string" where
  "toLowerCase s = map lowerChar s"

definition toUpperCase :: "string \<Rightarrow> string" where
  "toUpperCase s = map upperChar s"

definition trim :: "string \<Rightarrow> string" where
  "trim s = rev (dropWhile isSpace (rev (dropWhile isSpace s)))"

fun startsWith :: "string \<Rightarrow> string \<Rightarrow> bool" where
  "startsWith s [] = True"
| "startsWith [] (p # ps) = False"
| "startsWith (c # cs) (p # ps) = (c = p \<and> startsWith cs ps)"

fun includesStr :: "string \<Rightarrow> string \<Rightarrow> bool" where
  "includesStr [] p = (p = [])"
| "includesStr (c # cs) p = (startsWith (c # cs) p \<or> includesStr cs p)"

text \<open>\<open>s.split(sep)\<close> for a one-character separator.\<close>

fun splitOn :: "char \<Rightarrow> string \<Rightarrow> string \<Rightarrow> string list" where
  "splitOn sep acc [] = [rev acc]"
| "splitOn sep acc (c # cs) =
     (if c = sep then rev acc # splitOn sep [] cs else splitOn sep (c # acc) cs)"

definition split :: "char \<Rightarrow> string \<Rightarrow> string list" where
  "split sep s = splitOn sep [] s"

text \<open>
  Splitting on runs of ASCII whitespace, dropping empty tokens: the token list of a
  \<open>class\<close> attribute (\<open>classList\<close>).
\<close>

fun tokensAcc :: "string \<Rightarrow> string \<Rightarrow> string list" where
  "tokensAcc acc [] = (if acc = [] then [] else [rev acc])"
| "tokensAcc acc (c # cs) =
     (if isSpace c then (if acc = [] then tokensAcc [] cs else rev acc # tokensAcc [] cs)
      else tokensAcc (c # acc) cs)"

definition tokens :: "string \<Rightarrow> string list" where
  "tokens s = tokensAcc [] s"

fun joinWith :: "string \<Rightarrow> string list \<Rightarrow> string" where
  "joinWith sep [] = []"
| "joinWith sep [x] = x"
| "joinWith sep (x # y # ys) = x @ sep @ joinWith sep (y # ys)"

subsection \<open>Numbers\<close>

text \<open>
  \<open>parseInt(s)\<close> in radix 10: leading whitespace is skipped, an optional sign is read,
  then the longest run of digits. \<open>None\<close> stands for \<open>NaN\<close>.
\<close>

definition digitVal :: "char \<Rightarrow> int" where
  "digitVal c = int (of_char c) - 48"

definition digitsVal :: "string \<Rightarrow> int" where
  "digitsVal ds = foldl (\<lambda>n c. 10 * n + digitVal c) 0 ds"

definition parseNat :: "string \<Rightarrow> int option" where
  "parseNat s = (let ds = takeWhile isDigit s in if ds = [] then None else Some (digitsVal ds))"

definition parseInt :: "string \<Rightarrow> int option" where
  "parseInt s =
     (case dropWhile isSpace s of
        [] \<Rightarrow> None
      | c # cs \<Rightarrow>
          if c = CHR ''-'' then map_option uminus (parseNat cs)
          else if c = CHR ''+'' then parseNat cs
          else parseNat (c # cs))"

text \<open>The double quote character, for the messages that quote a value.\<close>

definition dq :: string where
  "dq = [CHR 0x22]"

text \<open>\<open>s.charAt(i)\<close>: the one-character string at index \<open>i\<close>, or the empty string.\<close>

definition charAt :: "string \<Rightarrow> nat \<Rightarrow> string" where
  "charAt s i = (if i < length s then [s ! i] else [])"

fun digitsOf :: "nat \<Rightarrow> nat \<Rightarrow> string" where
  "digitsOf 0 n = []"
| "digitsOf (Suc fuel) n =
     (if n < 10 then [char_of (48 + n)]
      else digitsOf fuel (n div 10) @ [char_of (48 + n mod 10)])"

text \<open>The decimal text of an integer, as template literals print it.\<close>

definition showInt :: "int \<Rightarrow> string" where
  "showInt i = (if i < 0 then CHR ''-'' # digitsOf (Suc (nat (- i))) (nat (- i))
                else digitsOf (Suc (nat i)) (nat i))"

definition showNum :: "int option \<Rightarrow> string" where
  "showNum n = (case n of None \<Rightarrow> ''NaN'' | Some i \<Rightarrow> showInt i)"

section \<open>The document tree\<close>

text \<open>
  An element has a tag name (kept in lower case), an ordered list of attributes with
  unique names, and an ordered list of child nodes. A document is the root node; the
  selectors below only ever match its descendants. A node is referred to by its path:
  the child indices from the root.
\<close>

type_synonym attrs = "(string \<times> string) list"

datatype node = Element string attrs "node list" | Text string

type_synonym path = "nat list"

fun tagOf :: "node \<Rightarrow> string" where
  "tagOf (Element t a cs) = t"
| "tagOf (Text s) = []"

fun attrsOf :: "node \<Rightarrow> attrs" where
  "attrsOf (Element t a cs) = a"
| "attrsOf (Text s) = []"

fun childNodes :: "node \<Rightarrow> node list" where
  "childNodes (Element t a cs) = cs"
| "childNodes (Text s) = []"

fun isElement :: "node \<Rightarrow> bool" where
  "isElement (Element t a cs) = True"
| "isElement (Text s) = False"

fun textContent :: "node \<Rightarrow> string" where
  "textContent (Text s) = s"
| "textContent (Element t a cs) = concat (map textContent cs)"

fun get :: "node \<Rightarrow> path \<Rightarrow> node option" where
  "get n [] = Some n"
| "get (Text s) (i # p) = None"
| "get (Element t a cs) (i # p) = (if i < length cs then get (cs ! i) p else None)"

fun upd :: "path \<Rightarrow> (node \<Rightarrow> node) \<Rightarrow> node \<Rightarrow> node" where
  "upd [] f n = f n"
| "upd (i # p) f (Text s) = Text s"
| "upd (i # p) f (Element t a cs) =
     (if i < length cs then Element t a (cs[i := upd p f (cs ! i)]) else Element t a cs)"

text \<open>All proper descendants of a node, in document order (pre-order).\<close>

fun paths :: "node \<Rightarrow> path list" and pathsFrom :: "nat \<Rightarrow> node list \<Rightarrow> path list" where
  "paths (Text s) = []"
| "paths (Element t a cs) = pathsFrom 0 cs"
| "pathsFrom i [] = []"
| "pathsFrom i (c # cs) = [i] # map ((#) i) (paths c) @ pathsFrom (Suc i) cs"

subsection \<open>Attributes\<close>

fun lookup :: "attrs \<Rightarrow> string \<Rightarrow> string option" where
  "lookup [] k = None"
| "lookup ((k', v) # a) k = (if k' = k then Some v else lookup a k)"

text \<open>Setting an attribute replaces the value in place, or appends a new attribute.\<close>

fun put :: "string \<Rightarrow> string \<Rightarrow> attrs \<Rightarrow> attrs" where
  "put k v [] = [(k, v)]"
| "put k v ((k', v') # a) = (if k' = k then (k, v) # a else (k', v') # put k v a)"

definition getAttribute :: "node \<Rightarrow> string \<Rightarrow> string option" where
  "getAttribute n k = lookup (attrsOf n) k"

definition hasAttribute :: "node \<Rightarrow> string \<Rightarrow> bool" where
  "hasAttribute n k = (lookup (attrsOf n) k \<noteq> None)"

fun setAttr :: "string \<Rightarrow> string \<Rightarrow> node \<Rightarrow> node" where
  "setAttr k v (Element t a cs) = Element t (put k v a) cs"
| "setAttr k v (Text s) = Text s"

text \<open>The reflecting property \<open>element.id\<close>: the attribute, or the empty string.\<close>

definition idOf :: "node \<Rightarrow> string" where
  "idOf n = (case getAttribute n ''id'' of None \<Rightarrow> [] | Some v \<Rightarrow> v)"

definition classList :: "node \<Rightarrow> string list" where
  "classList n = (case getAttribute n ''class'' of None \<Rightarrow> [] | Some v \<Rightarrow> tokens v)"

text \<open>\<open>element.tagName\<close> of an HTML element is upper case.\<close>

definition tagName :: "node \<Rightarrow> string" where
  "tagName n = toUpperCase (tagOf n)"

subsection \<open>Selectors\<close>

text \<open>
  The selectors the source passes to \<open>querySelector\<close>, \<open>querySelectorAll\<close> and
  \<open>closest\<close>: comma lists of descendant chains of compound selectors.
\<close>

datatype simple = Tag string | Cls string | Ident string | HasAttr string | AttrEq string string

type_synonym compound = "simple list"
type_synonym complex = "compound list"
type_synonym selector = "complex list"

fun matchSimple :: "node \<Rightarrow> simple \<Rightarrow> bool" where
  "matchSimple n (Tag t) = (tagOf n = t)"
| "matchSimple n (Cls c) = (c \<in> set (classList n))"
| "matchSimple n (Ident i) = (getAttribute n ''id'' = Some i)"
| "matchSimple n (HasAttr k) = hasAttribute n k"
| "matchSimple n (AttrEq k v) = (getAttribute n k = Some v)"

definition matchCompound :: "node \<Rightarrow> compound \<Rightarrow> bool" where
  "matchCompound n c = (isElement n \<and> list_all (matchSimple n) c)"

text \<open>The ancestors of the node at a path, nearest first, the root excluded.\<close>

fun properPrefixes :: "path \<Rightarrow> path list" where
  "properPrefixes [] = []"
| "properPrefixes (i # p) = (if p = [] then [] else map ((#) i) (properPrefixes p) @ [[i]])"

definition ancestors :: "node \<Rightarrow> path \<Rightarrow> path list" where
  "ancestors d p = properPrefixes p"

text \<open>
  A descendant chain is matched right to left: the last compound on the node itself,
  the ones before it on ancestors, outward.
\<close>

fun matchChain :: "node \<Rightarrow> compound list \<Rightarrow> path list \<Rightarrow> bool" where
  "matchChain d [] anc = True"
| "matchChain d (c # cs) [] = False"
| "matchChain d (c # cs) (a # anc) =
     (case get d a of
        None \<Rightarrow> False
      | Some n \<Rightarrow> (matchCompound n c \<and> matchChain d cs anc) \<or> matchChain d (c # cs) anc)"

definition matchComplex :: "node \<Rightarrow> path \<Rightarrow> complex \<Rightarrow> bool" where
  "matchComplex d p cx =
     (case rev cx of
        [] \<Rightarrow> False
      | c # cs \<Rightarrow>
          (case get d p of
             None \<Rightarrow> False
           | Some n \<Rightarrow> matchCompound n c \<and> matchChain d cs (ancestors d p)))"

definition matches :: "node \<Rightarrow> selector \<Rightarrow> path \<Rightarrow> bool" where
  "matches d sel p = list_ex (matchComplex d p) sel"

definition querySelectorAll :: "node \<Rightarrow> selector \<Rightarrow> path list" where
  "querySelectorAll d sel = filter (matches d sel) (paths d)"

definition querySelector :: "node \<Rightarrow> selector \<Rightarrow> path option" where
  "querySelector d sel = (case querySelectorAll d sel of [] \<Rightarrow> None | p # ps \<Rightarrow> Some p)"

text \<open>\<open>element.querySelectorAll\<close>: the matches among the descendants of the element.\<close>

definition isProperPrefix :: "path \<Rightarrow> path \<Rightarrow> bool" where
  "isProperPrefix p q = (length p < length q \<and> take (length p) q = p)"

definition querySelectorAllIn :: "node \<Rightarrow> path \<Rightarrow> selector \<Rightarrow> path list" where
  "querySelectorAllIn d e sel = filter (isProperPrefix e) (querySelectorAll d sel)"

definition querySelectorIn :: "node \<Rightarrow> path \<Rightarrow> selector \<Rightarrow> path option" where
  "querySelectorIn d e sel = (case querySelectorAllIn d e sel of [] \<Rightarrow> None | p # ps \<Rightarrow> Some p)"

text \<open>\<open>element.closest\<close>: the element itself or its nearest matching ancestor.\<close>

definition closest :: "node \<Rightarrow> path \<Rightarrow> selector \<Rightarrow> path option" where
  "closest d p sel = (case filter (matches d sel) (p # ancestors d p) of [] \<Rightarrow> None | q # qs \<Rightarrow> Some q)"

definition tags :: "string list \<Rightarrow> selector" where
  "tags ts = map (\<lambda>t. [[Tag t]]) ts"

definition headingSelector :: selector where
  "headingSelector = tags [''h1'', ''h2'', ''h3'', ''h4'', ''h5'', ''h6'']"

section \<open>The auditor: issues\<close>

datatype issue_kind = Wcag | Heading | Contrast | Html | Aria | Keyboard | ScreenReader | Error

text \<open>
  An issue carries its kind, its message and, where the source attaches
  \<open>element.outerHTML\<close>, the element it is about. Rule-specific fields are kept as
  name and value pairs.
\<close>

record issue =
  kind :: issue_kind
  message :: string
  element :: "node option"
  extra :: "(string \<times> string) list"

definition mkIssue :: "issue_kind \<Rightarrow> string \<Rightarrow> node option \<Rightarrow> issue" where
  "mkIssue k m e = \<lparr>kind = k, message = m, element = e, extra = []\<rparr>"

subsection \<open>Heading hierarchy\<close>

text \<open>
  The body of the loop over the headings: given the previous level, the issues for one
  heading. Levels are JavaScript numbers; \<open>None\<close> is \<open>NaN\<close>, on which every
  comparison is false.
\<close>

definition headingLevel :: "node \<Rightarrow> int option" where
  "headingLevel h = parseInt (charAt (tagName h) 1)"

definition headingStep :: "int option \<Rightarrow> node \<Rightarrow> issue list" where
  "headingStep previousLevel heading =
     (let currentLevel = headingLevel heading in
      (if previousLevel = Some 0 \<and> currentLevel \<noteq> Some 1
       then [mkIssue Heading
               (''Document doesn't start with an h1. First heading is '' @ tagName heading)
               (Some heading)]
       else []) @
      (if (case (currentLevel, previousLevel) of
             (Some c, Some p) \<Rightarrow> c > p + 1 | _ \<Rightarrow> False)
       then [mkIssue Heading
               (''Heading level skipped from h'' @ showNum previousLevel @ '' to h'' @ showNum currentLevel)
               (Some heading)]
       else []))"

fun headingLoop :: "int option \<Rightarrow> node list \<Rightarrow> issue list" where
  "headingLoop previousLevel [] = []"
| "headingLoop previousLevel (h # hs) =
     headingStep previousLevel h @ headingLoop (headingLevel h) hs"

definition elementsAt :: "node \<Rightarrow> path list \<Rightarrow> node list" where
  "elementsAt d ps = concat (map (\<lambda>p. case get d p of None \<Rightarrow> [] | Some n \<Rightarrow> [n]) ps)"

definition headingsOf :: "node \<Rightarrow> node list" where
  "headingsOf d = elementsAt d (querySelectorAll d headingSelector)"

text \<open>The issue for a document without any \<open>h1\<close>.\<close>

definition lacksH1 :: "node \<Rightarrow> issue list" where
  "lacksH1 d =
     (if querySelector d (tags [''h1'']) = None
      then [mkIssue Heading
              ''Document lacks a main heading (h1), which is important for document structure''
              None]
      else [])"

definition checkHeadingHierarchy :: "node \<Rightarrow> issue list" where
  "checkHeadingHierarchy document =
     (let headings = headingsOf document in
      if length headings = 0
      then [mkIssue Heading
              ''Document has no headings, which may make navigation difficult for screen reader users''
              None]
      else
        lacksH1 document @ headingLoop (Some 0) headings)"


subsection \<open>JavaScript values and exceptions\<close>

text \<open>
  The values that occur in the conditions of the source: \<open>null\<close>, booleans and
  strings. Strict equality never converts, so values of different types are unequal.
\<close>

datatype jsval = JNull | JBool bool | JStr string

fun truthy :: "jsval \<Rightarrow> bool" where
  "truthy JNull = False"
| "truthy (JBool b) = b"
| "truthy (JStr s) = (s \<noteq> [])"

definition jsNot :: "jsval \<Rightarrow> jsval" where
  "jsNot v = JBool (\<not> truthy v)"

definition strictEq :: "jsval \<Rightarrow> jsval \<Rightarrow> bool" where
  "strictEq a b = (a = b)"

definition attrVal :: "node \<Rightarrow> string \<Rightarrow> jsval" where
  "attrVal n k = (case getAttribute n k of None \<Rightarrow> JNull | Some v \<Rightarrow> JStr v)"

text \<open>
  A thrown exception is the left injection, carrying \<open>error.message\<close>; a normal
  return is the right injection.
\<close>

type_synonym 'a result = "string + 'a"

definition bindR :: "'a result \<Rightarrow> ('a \<Rightarrow> 'b result) \<Rightarrow> 'b result" where
  "bindR r f = (case r of Inl e \<Rightarrow> Inl e | Inr x \<Rightarrow> f x)"

text \<open>
  Reading a property of an object literal also finds the members every object inherits
  from \<open>Object.prototype\<close>.
\<close>

definition objectPrototypeKeys :: "string list" where
  "objectPrototypeKeys =
     [''constructor'', ''__defineGetter__'', ''__defineSetter__'', ''hasOwnProperty'',
      ''__lookupGetter__'', ''__lookupSetter__'', ''isPrototypeOf'', ''propertyIsEnumerable'',
      ''toString'', ''valueOf'', ''__proto__'', ''toLocaleString'']"

subsection \<open>Screen-reader hazards\<close>

definition figureSelector :: selector where
  "figureSelector = tags [''figure'']"

text \<open>
  The condition of the source under which an image with an empty \<open>alt\<close> is reported:
  \<open>!img.classList.contains('decorative') && !img.closest('figure') &&
  !img.getAttribute('aria-hidden') === 'true'\<close>. The negation binds tighter than
  \<open>===\<close>, so the last conjunct compares a boolean with a string.
\<close>

definition emptyAltReported :: "node \<Rightarrow> path \<Rightarrow> node \<Rightarrow> bool" where
  "emptyAltReported document p img =
     (\<not> (''decorative'' \<in> set (classList img)) \<and>
      closest document p figureSelector = None \<and>
      strictEq (jsNot (attrVal img ''aria-hidden'')) (JStr ''true''))"

definition imageIssues :: "node \<Rightarrow> path \<Rightarrow> issue list" where
  "imageIssues document p =
     (case get document p of
        None \<Rightarrow> []
      | Some img \<Rightarrow>
          (case getAttribute img ''alt'' of
             None \<Rightarrow> [mkIssue ScreenReader ''Image missing alt attribute'' (Some img)]
           | Some alt \<Rightarrow>
               if trim alt = []
               then (if emptyAltReported document p img
                     then [mkIssue ScreenReader ''Non-decorative image has empty alt text'' (Some img)]
                     else [])
               else if includesStr (toLowerCase alt) ''image of'' \<or>
                       includesStr (toLowerCase alt) ''picture of''
               then [mkIssue ScreenReader
                       (''Alt text should not include phrases like '' @ dq @ ''image of'' @ dq @ '' or '' @ dq @ ''picture of'' @ dq)
                       (Some img)]
               else []))"

definition hiddenInteractiveSelector :: selector where
  "hiddenInteractiveSelector =
     [[[Tag ''a'', AttrEq ''aria-hidden'' ''true'']],
      [[Tag ''button'', AttrEq ''aria-hidden'' ''true'']],
      [[Tag ''input'', AttrEq ''aria-hidden'' ''true'']]]"

text \<open>
  The loop over the elements with an \<open>id\<close>; \<open>seen\<close> holds the keys stored in
  \<open>allIds\<close> so far.
\<close>

fun duplicateIds :: "string list \<Rightarrow> node list \<Rightarrow> issue list" where
  "duplicateIds seen [] = []"
| "duplicateIds seen (e # es) =
     (let i = idOf e in
      if i \<in> set seen \<or> i \<in> set objectPrototypeKeys
      then mkIssue ScreenReader
             (''Duplicate ID: '' @ dq @ i @ dq @ '' - can cause issues with aria references'') (Some e)
           # duplicateIds seen es
      else duplicateIds (i # seen) es)"

text \<open>\<open>document.getElementById\<close>: the first element in document order with that id.\<close>

definition getElementById :: "node \<Rightarrow> string \<Rightarrow> path option" where
  "getElementById d i = (if i = [] then None else querySelector d [[[Ident i]]])"

definition labelledbyIssues :: "node \<Rightarrow> node \<Rightarrow> issue list" where
  "labelledbyIssues document e =
     concat (map (\<lambda>i. if getElementById document i = None
                       then [mkIssue ScreenReader
                               (''aria-labelledby references non-existent ID: '' @ dq @ i @ dq)
                               (Some e)]
                       else [])
                 (split CHR '' '' (case getAttribute e ''aria-labelledby'' of None \<Rightarrow> [] | Some v \<Rightarrow> v)))"

definition checkScreenReaderAnnouncements :: "node \<Rightarrow> issue list" where
  "checkScreenReaderAnnouncements document =
     concat (map (imageIssues document) (querySelectorAll document (tags [''img'']))) @
     map (\<lambda>e. mkIssue ScreenReader
                 (''Interactive element is hidden from screen readers (aria-hidden='' @ dq @ ''true'' @ dq @ '')'') (Some e))
         (elementsAt document (querySelectorAll document hiddenInteractiveSelector)) @
     duplicateIds [] (elementsAt document (querySelectorAll document [[[HasAttr ''id'']]])) @
     concat (map (labelledbyIssues document)
               (elementsAt document (querySelectorAll document [[[HasAttr ''aria-labelledby'']]])))"

subsection \<open>ARIA usage\<close>

definition validRoles :: "string list" where
  "validRoles =
     [''alert'', ''alertdialog'', ''application'', ''article'', ''banner'',
      ''button'', ''cell'', ''checkbox'', ''columnheader'', ''combobox'',
      ''complementary'', ''contentinfo'', ''definition'', ''dialog'',
      ''directory'', ''document'', ''feed'', ''figure'', ''form'', ''grid'',
      ''gridcell'', ''group'', ''heading'', ''img'', ''link'', ''list'',
      ''listbox'', ''listitem'', ''log'', ''main'', ''marquee'', ''math'',
      ''menu'', ''menubar'', ''menuitem'', ''menuitemcheckbox'',
      ''menuitemradio'', ''navigation'', ''none'', ''note'', ''option'',
      ''presentation'', ''progressbar'', ''radio'', ''radiogroup'',
      ''region'', ''row'', ''rowgroup'', ''rowheader'', ''scrollbar'',
      ''search'', ''searchbox'', ''separator'', ''slider'', ''spinbutton'',
      ''status'', ''switch'', ''tab'', ''table'', ''tablist'', ''tabpanel'',
      ''term'', ''textbox'', ''timer'', ''toolbar'', ''tooltip'', ''tree'',
      ''treegrid'', ''treeitem'']"

definition rolesThatRequireAttributes :: "(string \<times> string list) list" where
  "rolesThatRequireAttributes =
     [(''checkbox'', [''aria-checked'']),
      (''combobox'', [''aria-expanded'']),
      (''slider'', [''aria-valuemin'', ''aria-valuemax'', ''aria-valuenow'']),
      (''progressbar'', [''aria-valuemin'', ''aria-valuemax'', ''aria-valuenow'']),
      (''scrollbar'', [''aria-valuemin'', ''aria-valuemax'', ''aria-valuenow'']),
      (''listbox'', [''aria-multiselectable'']),
      (''radiogroup'', [''aria-required''])]"

text \<open>
  \<open>rolesThatRequireAttributes[role]\<close>: an own entry, an inherited member of
  \<open>Object.prototype\<close> (truthy, and not iterable), or \<open>undefined\<close>.
\<close>

datatype required = Undefined | Inherited | Required "string list"

definition requiredFor :: "string \<Rightarrow> required" where
  "requiredFor role =
     (case map_of rolesThatRequireAttributes role of
        Some as \<Rightarrow> Required as
      | None \<Rightarrow> if role \<in> set objectPrototypeKeys then Inherited else Undefined)"

definition roleOf :: "node \<Rightarrow> string" where
  "roleOf e = (case getAttribute e ''role'' of None \<Rightarrow> [] | Some v \<Rightarrow> v)"

definition invalidRoleIssues :: "node \<Rightarrow> issue list" where
  "invalidRoleIssues e =
     (if roleOf e \<notin> set validRoles
      then [mkIssue Aria (''Invalid ARIA role: '' @ dq @ roleOf e @ dq) (Some e)]
      else [])"

definition missingAttrIssues :: "node \<Rightarrow> string list \<Rightarrow> issue list" where
  "missingAttrIssues e as =
     concat (map (\<lambda>a. if \<not> hasAttribute e a
                       then [mkIssue Aria
                               (''Element with role='' @ dq @ roleOf e @ dq @
                                '' is missing required attribute: '' @ a) (Some e)]
                       else []) as)"

text \<open>
  The second loop of the ARIA check. Iterating over an inherited member with
  \<open>for ... of\<close> throws a TypeError.
\<close>

fun requiredAttrLoop :: "node list \<Rightarrow> issue list result" where
  "requiredAttrLoop [] = Inr []"
| "requiredAttrLoop (e # es) =
     (case requiredFor (roleOf e) of
        Undefined \<Rightarrow> requiredAttrLoop es
      | Inherited \<Rightarrow> Inl ''requiredAttributes is not iterable''
      | Required as \<Rightarrow> bindR (requiredAttrLoop es) (\<lambda>rest. Inr (missingAttrIssues e as @ rest)))"

definition checkARIAUsage :: "node \<Rightarrow> issue list result" where
  "checkARIAUsage document =
     (let elementsWithRole = elementsAt document (querySelectorAll document [[[HasAttr ''role'']]])
      in bindR (requiredAttrLoop elementsWithRole)
           (\<lambda>missing. Inr (concat (map invalidRoleIssues elementsWithRole) @ missing)))"

subsection \<open>Keyboard accessibility\<close>

definition interactiveSelector :: selector where
  "interactiveSelector =
     tags [''a'', ''button'', ''input'', ''select'', ''textarea''] @
     [[[AttrEq ''role'' ''button'']], [[AttrEq ''role'' ''link'']]]"

definition tabindexIssues :: "node \<Rightarrow> issue list" where
  "tabindexIssues e =
     (let tabindex = getAttribute e ''tabindex'' in
      (if tabindex = Some ''-1''
       then [mkIssue Keyboard (''Interactive element is not keyboard accessible (tabindex='' @ dq @ ''-1'' @ dq @ '')'')
               (Some e)]
       else []) @
      (case tabindex of
         None \<Rightarrow> []
       | Some t \<Rightarrow>
           if t \<noteq> [] \<and> (case parseInt t of None \<Rightarrow> False | Some n \<Rightarrow> n > 0)
           then [mkIssue Keyboard
                   (''Tabindex greater than 0 ('' @ t @ '') can cause navigation issues'') (Some e)]
           else []))"

definition checkKeyboardAccessibility :: "node \<Rightarrow> issue list" where
  "checkKeyboardAccessibility document =
     concat (map tabindexIssues (elementsAt document (querySelectorAll document interactiveSelector))) @
     concat (map (\<lambda>d. if \<not> hasAttribute d ''tabindex''
                       then [mkIssue Keyboard
                               (''Element with role='' @ dq @ ''button'' @ dq @ '' needs tabindex attribute for keyboard access'')
                               (Some d)]
                       else [])
               (elementsAt document
                  (querySelectorAll document [[[Tag ''div'', AttrEq ''role'' ''button'']]])))"

subsection \<open>Colour contrast\<close>

text \<open>
  \<open>parseInt(s, 16)\<close>: whitespace, a sign and a \<open>0x\<close> prefix are skipped, then the
  longest run of hexadecimal digits is read.
\<close>

definition isHexDigit :: "char \<Rightarrow> bool" where
  "isHexDigit c =
     (isDigit c \<or> (97 \<le> (of_char c :: nat) \<and> (of_char c :: nat) \<le> 102) \<or>
      (65 \<le> (of_char c :: nat) \<and> (of_char c :: nat) \<le> 70))"

definition hexVal :: "char \<Rightarrow> int" where
  "hexVal c =
     (if isDigit c then int (of_char c) - 48
      else if 97 \<le> (of_char c :: nat) then int (of_char c) - 87
      else int (of_char c) - 55)"

definition parseHexNat :: "string \<Rightarrow> int option" where
  "parseHexNat s =
     (let s' = (if startsWith s ''0x'' \<or> startsWith s ''0X'' then drop 2 s else s);
          ds = takeWhile isHexDigit s'
      in if ds = [] then None else Some (foldl (\<lambda>n c. 16 * n + hexVal c) 0 ds))"

definition parseInt16 :: "string \<Rightarrow> int option" where
  "parseInt16 s =
     (case dropWhile isSpace s of
        [] \<Rightarrow> None
      | c # cs \<Rightarrow>
          if c = CHR ''-'' then map_option uminus (parseHexNat cs)
          else if c = CHR ''+'' then parseHexNat cs
          else parseHexNat (c # cs))"

text \<open>
  The regular expression \<open>/(\d+),\s*(\d+),\s*(\d+)/\<close>: \<open>rgbMatchAt\<close> tries it at
  the start of the string, \<open>rgbMatch\<close> finds the leftmost match and returns the three
  groups. A run of digits is always taken whole: the character after a shorter run would
  be a digit, where the expression needs a comma.
\<close>

definition rgbMatchAt :: "string \<Rightarrow> (string \<times> string \<times> string) option" where
  "rgbMatchAt s =
     (let g1 = takeWhile isDigit s; r1 = dropWhile isDigit s in
      if g1 = [] then None else
      case r1 of
        [] \<Rightarrow> None
      | c1 # t1 \<Rightarrow>
          if c1 \<noteq> CHR '','' then None else
          let u1 = dropWhile isSpace t1; g2 = takeWhile isDigit u1; r2 = dropWhile isDigit u1 in
          if g2 = [] then None else
          case r2 of
            [] \<Rightarrow> None
          | c2 # t2 \<Rightarrow>
              if c2 \<noteq> CHR '','' then None else
              let u2 = dropWhile isSpace t2; g3 = takeWhile isDigit u2 in
              if g3 = [] then None else Some (g1, g2, g3))"

fun rgbMatch :: "string \<Rightarrow> (string \<times> string \<times> string) option" where
  "rgbMatch [] = None"
| "rgbMatch (c # cs) =
     (case rgbMatchAt (c # cs) of Some m \<Rightarrow> Some m | None \<Rightarrow> rgbMatch cs)"

text \<open>\<open>s.substr(start, 2)\<close>.\<close>

definition substr2 :: "string \<Rightarrow> nat \<Rightarrow> string" where
  "substr2 s start = take 2 (drop start s)"

text \<open>
  \<open>parseColor\<close>: \<open>None\<close> is \<open>null\<close>; a component is a JavaScript number, with
  \<open>None\<close> for \<open>NaN\<close>.
\<close>

definition parseColor :: "string \<Rightarrow> int option list option" where
  "parseColor color =
     (if color = [] then None
      else if startsWith color ''rgb'' then
        (case rgbMatch color of
           Some (m1, m2, m3) \<Rightarrow> Some [parseInt m1, parseInt m2, parseInt m3]
         | None \<Rightarrow> None)
      else if startsWith color ''#'' then
        (let hex0 = drop 1 color;
             hex = (if length hex0 = 3 then concat (map (\<lambda>c. [c, c]) hex0) else hex0)
         in Some [parseInt16 (substr2 hex 0), parseInt16 (substr2 hex 2), parseInt16 (substr2 hex 4)])
      else None)"

text \<open>The part of a computed style the check reads.\<close>

record style =
  color :: string
  backgroundColor :: string
  fontSize :: string
  fontWeight :: string

text \<open>
  \<open>ratio.toFixed(2)\<close>: the nearest multiple of one hundredth, the larger one on a tie,
  for a ratio that is not negative.
\<close>

definition toFixed2 :: "real option \<Rightarrow> string" where
  "toFixed2 r =
     (case r of
        None \<Rightarrow> ''NaN''
      | Some x \<Rightarrow>
          (let n = nat \<lfloor>x * 100 + 1 / 2\<rfloor> in
           showInt (int (n div 100)) @ ''.'' @
           [char_of (48 + (n div 10) mod 10), char_of (48 + n mod 10)]))"

definition geNum :: "int option \<Rightarrow> int \<Rightarrow> bool" where
  "geNum n k = (case n of None \<Rightarrow> False | Some i \<Rightarrow> i \<ge> k)"

definition isLargeText :: "style \<Rightarrow> bool" where
  "isLargeText st =
     (let fontSize = parseInt (fontSize st);
          isBold = geNum (parseInt (fontWeight st)) 700
      in geNum fontSize 18 \<or> (geNum fontSize 14 \<and> isBold))"

definition minimumRatio :: "style \<Rightarrow> real" where
  "minimumRatio st = (if isLargeText st then 3 else 4.5)"

definition showMinimum :: "style \<Rightarrow> string" where
  "showMinimum st = (if isLargeText st then ''3'' else ''4.5'')"

definition belowMinimum :: "real option \<Rightarrow> real \<Rightarrow> bool" where
  "belowMinimum ratio m = (case ratio of None \<Rightarrow> False | Some r \<Rightarrow> r < m)"

text \<open>
  The body of the loop over the text elements, for one element with its computed style.
  \<open>contrastRgb\<close> is \<open>wcagContrast.rgb\<close>, a function of the external package
  \<open>wcag-contrast\<close>; its result is a number, \<open>None\<close> for \<open>NaN\<close>.
\<close>

definition contrastStep ::
  "(int option list \<Rightarrow> int option list \<Rightarrow> real option) \<Rightarrow> style \<Rightarrow> node \<Rightarrow> issue list" where
  "contrastStep contrastRgb st e =
     (if color st = [] \<or> backgroundColor st = [] then []
      else
        case (parseColor (color st), parseColor (backgroundColor st)) of
          (Some foreground, Some background) \<Rightarrow>
            (let ratio = contrastRgb foreground background in
             if belowMinimum ratio (minimumRatio st)
             then [\<lparr>kind = Contrast,
                    message = ''Insufficient color contrast ratio ('' @ toFixed2 ratio @
                              '':1), should be at least '' @ showMinimum st @ '':1'',
                    element = Some e,
                    extra = [(''foreground'', color st), (''background'', backgroundColor st)]\<rparr>]
             else [])
        | _ \<Rightarrow> [])"

definition textSelector :: selector where
  "textSelector =
     tags [''p'', ''h1'', ''h2'', ''h3'', ''h4'', ''h5'', ''h6'', ''li'', ''td'', ''th'', ''label'']"

text \<open>
  \<open>getComputedStyle\<close> is a free identifier of the module: it is neither declared nor
  imported there, so it is whatever the host has installed as a global. With no such
  global (\<open>None\<close>), evaluating the call throws a ReferenceError, at the first text
  element.
\<close>

definition checkColorContrast ::
  "(node \<Rightarrow> path \<Rightarrow> style) option \<Rightarrow> (int option list \<Rightarrow> int option list \<Rightarrow> real option) \<Rightarrow>
   node \<Rightarrow> issue list result" where
  "checkColorContrast getComputedStyle contrastRgb document =
     (let textElements = querySelectorAll document textSelector in
      if textElements = [] then Inr []
      else
        case getComputedStyle of
          None \<Rightarrow> Inl ''getComputedStyle is not defined''
        | Some gcs \<Rightarrow>
            Inr (concat (map (\<lambda>p. case get document p of
                                     None \<Rightarrow> []
                                   | Some e \<Rightarrow> contrastStep contrastRgb (gcs document p) e)
                             textElements)))"

subsection \<open>The checks behind external packages\<close>

text \<open>A violation as \<open>axe.run\<close> reports it, and a message of the HTML validator.\<close>

record violation =
  vid :: string
  vimpact :: string
  vhelp :: string
  vdescription :: string
  vhelpUrl :: string
  nodesHtml :: "string list"

record vmessage =
  mtype :: string
  mtext :: string
  mline :: string
  mcolumn :: string

definition runAxeChecks :: "(node \<Rightarrow> violation list result) \<Rightarrow> node \<Rightarrow> issue list" where
  "runAxeChecks axeRun document =
     (case axeRun document of
        Inr violations \<Rightarrow>
          map (\<lambda>v. \<lparr>kind = Wcag, message = vhelp v, element = None,
                    extra = [(''rule'', vid v), (''impact'', vimpact v),
                             (''description'', vdescription v), (''helpUrl'', vhelpUrl v)] @
                            map (\<lambda>h. (''elements'', h)) (nodesHtml v)\<rparr>) violations
      | Inl m \<Rightarrow>
          [\<lparr>kind = Wcag, message = ''Error running axe checks: '' @ m, element = None,
            extra = [(''rule'', ''axe-error'')]\<rparr>])"

definition validateHTML :: "(string \<Rightarrow> vmessage list result) \<Rightarrow> string \<Rightarrow> issue list" where
  "validateHTML htmlValidator html =
     (case htmlValidator html of
        Inr messages \<Rightarrow>
          map (\<lambda>m. \<lparr>kind = Html, message = mtext m, element = None,
                    extra = [(''subtype'', mtype m), (''line'', mline m), (''column'', mcolumn m)]\<rparr>)
              (filter (\<lambda>m. mtype m \<in> set [''error'', ''warning'']) messages)
      | Inl m \<Rightarrow> [mkIssue Html (''HTML validation failed: '' @ m) None])"

subsection \<open>The auditor\<close>

record config =
  checkWCAG :: bool
  checkHeadingHierarchyOn :: bool
  checkColorContrastOn :: bool
  validateHTMLOn :: bool
  checkARIA :: bool
  checkKeyboardAccessibilityOn :: bool
  checkScreenReaderAnnouncementsOn :: bool

text \<open>
  What the module takes from outside: the parser of \<open>jsdom\<close>, \<open>axe.run\<close>, the
  HTML validator, the global \<open>getComputedStyle\<close> and \<open>wcagContrast.rgb\<close>.
\<close>

record env =
  parseHtml :: "string \<Rightarrow> node result"
  axeRun :: "node \<Rightarrow> violation list result"
  htmlValidator :: "string \<Rightarrow> vmessage list result"
  getComputedStyle :: "(node \<Rightarrow> path \<Rightarrow> style) option"
  contrastRgb :: "int option list \<Rightarrow> int option list \<Rightarrow> real option"

text \<open>The body of the \<open>try\<close> block of \<open>checkAccessibility\<close>.\<close>

definition auditBody :: "config \<Rightarrow> env \<Rightarrow> string \<Rightarrow> issue list result" where
  "auditBody cfg ev html =
     bindR (parseHtml ev html) (\<lambda>document.
       let axeIssues = (if checkWCAG cfg then runAxeChecks (axeRun ev) document else []);
           headingIssues = (if checkHeadingHierarchyOn cfg then checkHeadingHierarchy document else [])
       in
       bindR (if checkColorContrastOn cfg
              then checkColorContrast (getComputedStyle ev) (contrastRgb ev) document
              else Inr []) (\<lambda>contrastIssues.
         let validationIssues = (if validateHTMLOn cfg then validateHTML (htmlValidator ev) html else [])
         in
         bindR (if checkARIA cfg then checkARIAUsage document else Inr []) (\<lambda>ariaIssues.
           let keyboardIssues =
                 (if checkKeyboardAccessibilityOn cfg then checkKeyboardAccessibility document else []);
               srIssues =
                 (if checkScreenReaderAnnouncementsOn cfg
                  then checkScreenReaderAnnouncements document else [])
           in Inr (axeIssues @ headingIssues @ contrastIssues @ validationIssues @ ariaIssues @
                   keyboardIssues @ srIssues))))"

definition checkAccessibility :: "config \<Rightarrow> env \<Rightarrow> string \<Rightarrow> issue list" where
  "checkAccessibility cfg ev html =
     (case auditBody cfg ev html of
        Inr issues \<Rightarrow> issues
      | Inl m \<Rightarrow> [mkIssue Error (''Accessibility check failed: '' @ m) None])"

subsection \<open>The WCAG contrast ratio\<close>





section \<open>The enhancer\<close>

text \<open>
  The enhancer mutates the parsed tree in place through the DOM interface
  (\<open>querySelector\<close>, \<open>setAttribute\<close>, \<open>createElement\<close>, \<open>insertBefore\<close>,
  \<open>appendChild\<close>, \<open>classList\<close>, \<open>textContent\<close>). Here every pass takes the
  tree and returns the new tree; an element the source holds a reference to is the path
  of that element.
\<close>

subsection \<open>Mutations\<close>

definition setAttribute :: "node \<Rightarrow> path \<Rightarrow> string \<Rightarrow> string \<Rightarrow> node" where
  "setAttribute d p k v = upd p (setAttr k v) d"

text \<open>The node at a path that is known to exist.\<close>

definition nodeAt :: "node \<Rightarrow> path \<Rightarrow> node" where
  "nodeAt d p = (case get d p of None \<Rightarrow> Text [] | Some n \<Rightarrow> n)"

definition createElement :: "string \<Rightarrow> node" where
  "createElement t = Element t [] []"

fun prependChild :: "node \<Rightarrow> node \<Rightarrow> node" where
  "prependChild c (Element t a cs) = Element t a (c # cs)"
| "prependChild c (Text s) = Text s"

fun appendChild :: "node \<Rightarrow> node \<Rightarrow> node" where
  "appendChild c (Element t a cs) = Element t a (cs @ [c])"
| "appendChild c (Text s) = Text s"

text \<open>Assigning \<open>textContent\<close> replaces the children by one text node.\<close>

fun setTextContent :: "string \<Rightarrow> node \<Rightarrow> node" where
  "setTextContent s (Element t a cs) = Element t a (if s = [] then [] else [Text s])"
| "setTextContent s (Text s') = Text s"

text \<open>
  \<open>classList.add\<close>: the token is appended to the ordered set of class tokens unless
  it is there, and the attribute is written back from the set.
\<close>

fun dedup :: "string list \<Rightarrow> string list" where
  "dedup [] = []"
| "dedup (x # xs) = x # dedup (filter (\<lambda>y. y \<noteq> x) xs)"

definition classListAdd :: "string \<Rightarrow> node \<Rightarrow> node" where
  "classListAdd c n =
     (let ts = dedup (classList n)
      in setAttr ''class'' (joinWith '' '' (if c \<in> set ts then ts else ts @ [c])) n)"

text \<open>A string is truthy when it is neither \<open>null\<close> (or \<open>undefined\<close>) nor empty.\<close>

definition truthyStr :: "string option \<Rightarrow> bool" where
  "truthyStr v = (case v of None \<Rightarrow> False | Some s \<Rightarrow> s \<noteq> [])"

record frontmatter =
  title :: "string option"
  language :: "string option"

subsection \<open>Language and title\<close>

definition ensureHtmlLangAttribute :: "node \<Rightarrow> string \<Rightarrow> node" where
  "ensureHtmlLangAttribute parsedHtml lang =
     (case querySelector parsedHtml (tags [''html'']) of
        None \<Rightarrow> parsedHtml
      | Some htmlElement \<Rightarrow> setAttribute parsedHtml htmlElement ''lang'' lang)"

text \<open>The second half of \<open>ensureDocumentTitle\<close>, once the head element is known.\<close>

definition ensureTitleIn :: "node \<Rightarrow> path \<Rightarrow> string \<Rightarrow> node" where
  "ensureTitleIn d headElement t =
     (case querySelectorIn d headElement (tags [''title'']) of
        None \<Rightarrow> upd headElement (appendChild (setTextContent t (createElement ''title''))) d
      | Some titleElement \<Rightarrow>
          if trim (textContent (nodeAt d titleElement)) = []
          then upd titleElement (setTextContent t) d
          else d)"

definition ensureDocumentTitle :: "node \<Rightarrow> string option \<Rightarrow> node" where
  "ensureDocumentTitle parsedHtml t =
     (case t of
        None \<Rightarrow> parsedHtml
      | Some ttl \<Rightarrow>
          if ttl = [] then parsedHtml
          else
            case querySelector parsedHtml (tags [''head'']) of
              Some headElement \<Rightarrow> ensureTitleIn parsedHtml headElement ttl
            | None \<Rightarrow>
                (case querySelector parsedHtml (tags [''html'']) of
                   Some htmlElement \<Rightarrow>
                     ensureTitleIn (upd htmlElement (prependChild (createElement ''head'')) parsedHtml)
                       (htmlElement @ [0]) ttl
                 | None \<Rightarrow> parsedHtml))"

subsection \<open>Landmarks\<close>

definition mainCandidates :: selector where
  "mainCandidates =
     [[[Cls ''content'']], [[Ident ''content'']], [[Tag ''article'']], [[Cls ''main'']],
      [[Ident ''main'']]]"

text \<open>Moving all children of the body into a new \<open>main\<close> that becomes its only child.\<close>

fun wrapInMain :: "node \<Rightarrow> node" where
  "wrapInMain (Element t a cs) = Element t a [Element ''main'' [] cs]"
| "wrapInMain (Text s) = Text s"

text \<open>
  The first part of \<open>addDocumentLandmarks\<close>: the tree after the search for the main
  element, and the main element, if there is one.
\<close>

definition resolveMain :: "node \<Rightarrow> node \<times> path option" where
  "resolveMain d =
     (case querySelector d (tags [''main'']) of
        Some mainElement \<Rightarrow> (d, Some mainElement)
      | None \<Rightarrow>
          (case querySelectorAll d mainCandidates of
             c # cs \<Rightarrow> (setAttribute d c ''role'' ''main'', Some c)
           | [] \<Rightarrow>
               (case querySelector d (tags [''body'']) of
                  Some body \<Rightarrow> (upd body wrapInMain d, Some (body @ [0]))
                | None \<Rightarrow> (d, None))))"

definition markMain :: "node \<times> path option \<Rightarrow> node" where
  "markMain r =
     (case r of
        (d, None) \<Rightarrow> d
      | (d, Some mainElement) \<Rightarrow>
          (let d1 = setAttribute d mainElement ''role'' ''main''
           in if idOf (nodeAt d1 mainElement) = []
              then setAttribute d1 mainElement ''id'' ''main-content''
              else d1))"

definition headerLandmark :: "node \<Rightarrow> node" where
  "headerLandmark d =
     (case querySelector d (tags [''header'']) of
        None \<Rightarrow> d
      | Some headerElement \<Rightarrow> setAttribute d headerElement ''role'' ''banner'')"

definition navStep :: "path \<Rightarrow> node \<Rightarrow> node" where
  "navStep nav d =
     (if \<not> hasAttribute (nodeAt d nav) ''aria-label''
      then setAttribute d nav ''aria-label'' ''Main Navigation''
      else d)"

definition navLandmarks :: "node \<Rightarrow> node" where
  "navLandmarks d = fold navStep (querySelectorAll d (tags [''nav''])) d"

definition footerLandmark :: "node \<Rightarrow> node" where
  "footerLandmark d =
     (case querySelector d (tags [''footer'']) of
        None \<Rightarrow> d
      | Some footerElement \<Rightarrow> setAttribute d footerElement ''role'' ''contentinfo'')"

text \<open>The loop over the asides; \<open>i\<close> is the loop index.\<close>

definition asideStep :: "nat \<times> path \<Rightarrow> node \<Rightarrow> node" where
  "asideStep ia d =
     (case ia of (i, aside) \<Rightarrow>
        (let d1 = setAttribute d aside ''role'' ''complementary''
         in if \<not> hasAttribute (nodeAt d1 aside) ''aria-label''
            then setAttribute d1 aside ''aria-label''
                   (''Complementary Content '' @ showInt (int i + 1))
            else d1))"

definition asideLandmarks :: "node \<Rightarrow> node" where
  "asideLandmarks d = fold asideStep (enumerate 0 (querySelectorAll d (tags [''aside'']))) d"

definition addDocumentLandmarks :: "node \<Rightarrow> node" where
  "addDocumentLandmarks parsedHtml =
     asideLandmarks (footerLandmark (navLandmarks (headerLandmark (markMain (resolveMain parsedHtml)))))"

subsection \<open>Headings\<close>

text \<open>
  The three replacements that make the id: characters other than word characters,
  whitespace and hyphens are removed, every run of whitespace becomes one hyphen, every
  run of hyphens becomes one hyphen. The flag tells whether the character before was
  part of the current run.
\<close>

fun spacesToHyphen :: "bool \<Rightarrow> string \<Rightarrow> string" where
  "spacesToHyphen inRun [] = []"
| "spacesToHyphen inRun (c # cs) =
     (if isSpace c then (if inRun then spacesToHyphen True cs else CHR ''-'' # spacesToHyphen True cs)
      else c # spacesToHyphen False cs)"

fun collapseHyphens :: "bool \<Rightarrow> string \<Rightarrow> string" where
  "collapseHyphens inRun [] = []"
| "collapseHyphens inRun (c # cs) =
     (if c = CHR ''-''
      then (if inRun then collapseHyphens True cs else CHR ''-'' # collapseHyphens True cs)
      else c # collapseHyphens False cs)"

definition slugify :: "string \<Rightarrow> string" where
  "slugify headingText =
     collapseHyphens False (spacesToHyphen False
       (filter (\<lambda>c. isWord c \<or> isSpace c \<or> c = CHR ''-'') (toLowerCase headingText)))"

text \<open>The body of the loop of \<open>enhanceHeadings\<close>, on the heading itself.\<close>

definition enhanceHeading :: "node \<Rightarrow> node" where
  "enhanceHeading heading =
     (let h1 = (if idOf heading = []
                then setAttr ''id'' (slugify (trim (textContent heading))) heading
                else heading);
          h2 = setAttr ''tabindex'' ''-1'' h1
      in if getAttribute h2 ''role'' = Some ''heading'' \<and> \<not> hasAttribute h2 ''aria-level''
         then setAttr ''aria-level'' (showNum (headingLevel h2)) h2
         else h2)"

definition enhanceHeadings :: "node \<Rightarrow> node" where
  "enhanceHeadings parsedHtml =
     fold (\<lambda>heading d. upd heading enhanceHeading d)
          (querySelectorAll parsedHtml headingSelector) parsedHtml"

subsection \<open>Links\<close>

definition externalIndicatorSelector :: selector where
  "externalIndicatorSelector =
     [[[Tag ''i'', Cls ''external'']], [[Cls ''fa-external-link'']], [[Cls ''icon-external'']]]"

text \<open>The three parts of the loop body of \<open>enhanceLinks\<close>, for the link at a path.\<close>

definition externalLink :: "path \<Rightarrow> node \<Rightarrow> node" where
  "externalLink link d =
     (let d1 = (if \<not> truthyStr (getAttribute (nodeAt d link) ''rel'')
                then setAttribute d link ''rel'' ''noopener noreferrer'' else d);
          linkText = toLowerCase (textContent (nodeAt d1 link));
          hasExternalIndicator =
            (includesStr linkText ''external'' \<or>
             querySelectorIn d1 link externalIndicatorSelector \<noteq> None)
      in if \<not> hasExternalIndicator \<and> \<not> truthyStr (getAttribute (nodeAt d1 link) ''aria-label'')
         then setAttribute d1 link ''aria-label''
                (textContent (nodeAt d1 link) @ '' (external link)'')
         else d1)"

definition anchorLink :: "path \<Rightarrow> string \<Rightarrow> node \<Rightarrow> node" where
  "anchorLink link href d =
     (let targetId = drop 1 href in
      case getElementById d targetId of
        None \<Rightarrow> d
      | Some targetElement \<Rightarrow>
          (let d1 = (if \<not> hasAttribute (nodeAt d targetElement) ''tabindex''
                     then setAttribute d targetElement ''tabindex'' ''-1'' else d)
           in if \<not> truthyStr (getAttribute (nodeAt d1 link) ''aria-label'')
              then setAttribute d1 link ''aria-label''
                     (''Jump to '' @ textContent (nodeAt d1 link))
              else d1))"

definition a11yWarning :: "path \<Rightarrow> string \<Rightarrow> node \<Rightarrow> node" where
  "a11yWarning p msg d =
     setAttribute (upd p (classListAdd ''a11y-warning'') d) p ''data-a11y-warning'' msg"

definition emptyLink :: "path \<Rightarrow> node \<Rightarrow> node" where
  "emptyLink link d =
     (if trim (textContent (nodeAt d link)) = [] \<and> \<not> hasAttribute (nodeAt d link) ''aria-label''
      then
        (case querySelectorIn d link (tags [''img'']) of
           None \<Rightarrow> a11yWarning link ''Link has no accessible text'' d
         | Some img \<Rightarrow>
             (case getAttribute (nodeAt d img) ''alt'' of
                None \<Rightarrow> a11yWarning link ''Link has no accessible text'' d
              | Some alt \<Rightarrow>
                  if alt = [] then a11yWarning link ''Link has no accessible text'' d
                  else setAttribute d link ''aria-label'' alt))
      else d)"

definition linkStep :: "path \<Rightarrow> node \<Rightarrow> node" where
  "linkStep link d =
     (case getAttribute (nodeAt d link) ''href'' of
        None \<Rightarrow> d
      | Some href \<Rightarrow>
          if href = [] then d
          else
            (let d1 = (if startsWith href ''http://'' \<or> startsWith href ''https://''
                       then externalLink link d else d);
                 d2 = (if startsWith href ''#'' then anchorLink link href d1 else d1)
             in emptyLink link d2))"

definition enhanceLinks :: "node \<Rightarrow> node" where
  "enhanceLinks parsedHtml = fold linkStep (querySelectorAll parsedHtml (tags [''a''])) parsedHtml"

subsection \<open>Tables\<close>

text \<open>
  Where the source needs a fresh id it calls \<open>Math.random\<close>. The tree travels with
  the number of such calls so far, and \<open>randomId k\<close> is the text the call number
  \<open>k\<close> gives.
\<close>

type_synonym estate = "node \<times> nat"

definition previousElementSibling :: "node \<Rightarrow> path \<Rightarrow> path option" where
  "previousElementSibling d p =
     (if p = [] then None
      else
        (let parent = butlast p;
             siblings = childNodes (nodeAt d parent);
             before = filter (\<lambda>j. j < length siblings \<and> isElement (siblings ! j)) (rev [0..<last p])
         in case before of [] \<Rightarrow> None | j # js \<Rightarrow> Some (parent @ [j])))"

definition setRole :: "string \<Rightarrow> path \<Rightarrow> node \<Rightarrow> node" where
  "setRole r p d = setAttribute d p ''role'' r"

definition scopeStep :: "path \<Rightarrow> node \<Rightarrow> node" where
  "scopeStep th d =
     setAttribute d th ''scope''
       (case getAttribute (nodeAt d th) ''scope'' of
          None \<Rightarrow> ''col''
        | Some s \<Rightarrow> if s = [] then ''col'' else s)"

definition isHeadingTag :: "string \<Rightarrow> bool" where
  "isHeadingTag t = (t \<in> set [''h1'', ''h2'', ''h3'', ''h4'', ''h5'', ''h6''])"

definition captionStep :: "(nat \<Rightarrow> string) \<Rightarrow> path \<Rightarrow> estate \<Rightarrow> estate" where
  "captionStep randomId table st =
     (case st of (d, k) \<Rightarrow>
        if querySelectorIn d table (tags [''caption'']) = None
        then
          (case previousElementSibling d table of
             Some potentialCaption \<Rightarrow>
               if isHeadingTag (toLowerCase (tagName (nodeAt d potentialCaption)))
               then
                 (let (d1, k1) =
                        (if idOf (nodeAt d potentialCaption) = []
                         then (setAttribute d potentialCaption ''id''
                                 (''table-heading-'' @ randomId k), Suc k)
                         else (d, k))
                  in (setAttribute d1 table ''aria-labelledby'' (idOf (nodeAt d1 potentialCaption)),
                      k1))
               else if \<not> hasAttribute (nodeAt d table) ''aria-label''
               then (setAttribute d table ''aria-label'' ''Table'', k)
               else (d, k)
           | None \<Rightarrow>
               if \<not> hasAttribute (nodeAt d table) ''aria-label''
               then (setAttribute d table ''aria-label'' ''Table'', k)
               else (d, k))
        else (d, k))"

definition tableStep :: "(nat \<Rightarrow> string) \<Rightarrow> path \<Rightarrow> estate \<Rightarrow> estate" where
  "tableStep randomId table st =
     (case st of (d, k) \<Rightarrow>
        (let d1 = setRole ''table'' table d;
             d2 = fold scopeStep (querySelectorAllIn d1 table (tags [''th''])) d1;
             (d3, k3) = captionStep randomId table (d2, k);
             d4 = fold (setRole ''row'') (querySelectorAllIn d3 table (tags [''tr''])) d3;
             d5 = fold (setRole ''cell'') (querySelectorAllIn d4 table (tags [''td''])) d4
         in (d5, k3)))"

definition enhanceTables :: "(nat \<Rightarrow> string) \<Rightarrow> estate \<Rightarrow> estate" where
  "enhanceTables randomId st =
     fold (tableStep randomId) (querySelectorAll (fst st) (tags [''table''])) st"

subsection \<open>Forms\<close>

definition formStep :: "(nat \<Rightarrow> string) \<Rightarrow> path \<Rightarrow> estate \<Rightarrow> estate" where
  "formStep randomId form st =
     (case st of (d, k) \<Rightarrow>
        if \<not> hasAttribute (nodeAt d form) ''aria-label'' \<and>
           \<not> hasAttribute (nodeAt d form) ''aria-labelledby''
        then
          (case querySelectorIn d form headingSelector of
             Some formHeading \<Rightarrow>
               (let (d1, k1) =
                      (if idOf (nodeAt d formHeading) = []
                       then (setAttribute d formHeading ''id'' (''form-heading-'' @ randomId k), Suc k)
                       else (d, k))
                in (setAttribute d1 form ''aria-labelledby'' (idOf (nodeAt d1 formHeading)), k1))
           | None \<Rightarrow> (setAttribute d form ''aria-label'' ''Form'', k))
        else (d, k))"

text \<open>
  \<open>input.type\<close> is compared with \<open>hidden\<close>, \<open>submit\<close> and \<open>button\<close>. For an
  \<open>input\<close> element the property is the \<open>type\<close> attribute in lower case (when it
  names a known type); for \<open>select\<close> and \<open>textarea\<close> it is never one of the three.
\<close>

definition skippedType :: "node \<Rightarrow> bool" where
  "skippedType n =
     (tagOf n = ''input'' \<and>
      (case getAttribute n ''type'' of
         None \<Rightarrow> False
       | Some t \<Rightarrow> toLowerCase t \<in> set [''hidden'', ''submit'', ''button'']))"

text \<open>
  The selector text \<open>label[for="ID"]\<close>, built by inserting the id of the input as it
  is. The attribute value is a double-quoted string; it ends at the first double quote,
  after which only white space, an optional modifier (\<open>i\<close> or \<open>s\<close>) and the closing
  bracket may follow. For an id without double quote, backslash and control characters
  the text is the selector for labels whose \<open>for\<close> is that id. For an id with a double
  quote and no backslash where something else follows the quote, parsing the text
  throws a SyntaxError. Every other text is left to \<open>selectorEngine\<close>, the parser of
  the selector library.
\<close>

definition plainId :: "string \<Rightarrow> bool" where
  "plainId s = list_all (\<lambda>c. c \<noteq> CHR 0x22 \<and> c \<noteq> CHR 0x5C \<and> 32 \<le> (of_char c :: nat)) s"

definition closesAttribute :: "string \<Rightarrow> bool" where
  "closesAttribute rest =
     (case dropWhile isSpace rest of
        [] \<Rightarrow> False
      | c # cs \<Rightarrow>
          c = CHR '']'' \<or>
          (c \<in> set ''iIsS'' \<and>
           (case dropWhile isSpace cs of [] \<Rightarrow> False | c' # cs' \<Rightarrow> c' = CHR '']'')))"

definition labelForSelector :: "(string \<Rightarrow> selector result) \<Rightarrow> string \<Rightarrow> selector result" where
  "labelForSelector selectorEngine inputId =
     (let selectorText = ''label[for='' @ dq @ inputId @ dq @ '']'' in
      if plainId inputId then Inr [[[Tag ''label'', AttrEq ''for'' inputId]]]
      else if CHR 0x5C \<notin> set inputId \<and>
              \<not> closesAttribute (drop 1 (dropWhile (\<lambda>c. c \<noteq> CHR 0x22) (inputId @ dq @ '']'')))
      then Inl ([CHR 0x27] @ selectorText @ [CHR 0x27] @ '' is not a valid selector'')
      else selectorEngine selectorText)"

record eenv =
  randomId :: "nat \<Rightarrow> string"
  selectorEngine :: "string \<Rightarrow> selector result"

definition inputStep :: "eenv \<Rightarrow> path \<Rightarrow> estate \<Rightarrow> estate result" where
  "inputStep ev input st =
     (case st of (d, k) \<Rightarrow>
        (let inputId = idOf (nodeAt d input) in
         if skippedType (nodeAt d input) then Inr (d, k)
         else
           (let (d1, k1) =
                  (if inputId = []
                   then (setAttribute d input ''id'' (''input-'' @ randomId ev k), Suc k)
                   else (d, k))
            in bindR (if inputId \<noteq> []
                      then bindR (labelForSelector (selectorEngine ev) inputId)
                             (\<lambda>sel. Inr (querySelector d1 sel \<noteq> None))
                      else Inr False)
                 (\<lambda>byFor.
                    (let hasAssociatedLabel =
                           (byFor \<or> closest d1 input (tags [''label'']) \<noteq> None \<or>
                            hasAttribute (nodeAt d1 input) ''aria-label'' \<or>
                            hasAttribute (nodeAt d1 input) ''aria-labelledby'');
                         d2 = (if \<not> hasAssociatedLabel
                               then a11yWarning input ''Input has no accessible label'' d1 else d1);
                         d3 = (if hasAttribute (nodeAt d2 input) ''required''
                               then setAttribute d2 input ''aria-required'' ''true'' else d2)
                     in Inr (d3, k1))))))"

fun inputLoop :: "eenv \<Rightarrow> path list \<Rightarrow> estate \<Rightarrow> estate result" where
  "inputLoop ev [] st = Inr st"
| "inputLoop ev (p # ps) st = bindR (inputStep ev p st) (inputLoop ev ps)"

definition enhanceForms :: "eenv \<Rightarrow> estate \<Rightarrow> estate result" where
  "enhanceForms ev st =
     (let st1 = fold (formStep (randomId ev)) (querySelectorAll (fst st) (tags [''form''])) st
      in inputLoop ev (querySelectorAll (fst st1) (tags [''input'', ''select'', ''textarea''])) st1)"

subsection \<open>Code blocks\<close>

definition codeLanguage :: "node \<Rightarrow> string" where
  "codeLanguage codeBlock =
     (case filter (\<lambda>c. startsWith c ''language-'') (classList codeBlock) of
        [] \<Rightarrow> ''code''
      | c # cs \<Rightarrow> drop 9 c)"

definition codeBlockStep :: "path \<Rightarrow> node \<Rightarrow> node" where
  "codeBlockStep codeBlock d =
     (case closest d codeBlock (tags [''pre'']) of
        None \<Rightarrow> d
      | Some pre \<Rightarrow>
          (let d1 = setAttribute d pre ''tabindex'' ''0'';
               d2 = setAttribute d1 pre ''role'' ''region''
           in setAttribute d2 pre ''aria-label''
                (''Code example in '' @ codeLanguage (nodeAt d2 codeBlock))))"

definition enhanceCodeBlocks :: "node \<Rightarrow> node" where
  "enhanceCodeBlocks parsedHtml =
     fold codeBlockStep (querySelectorAll parsedHtml [[[Tag ''pre''], [Tag ''code'']]]) parsedHtml"

subsection \<open>Skip navigation\<close>

definition skipLinkSelector :: selector where
  "skipLinkSelector =
     [[[Tag ''a'', AttrEq ''href'' ''#main'']], [[Tag ''a'', AttrEq ''href'' ''#main-content'']],
      [[Tag ''a'', AttrEq ''href'' ''#content'']]]"

definition skipLink :: node where
  "skipLink =
     Element ''a'' [(''href'', ''#main-content''), (''class'', ''skip-link'')]
       [Text ''Skip to main content'']"

definition addSkipNavigation :: "node \<Rightarrow> node" where
  "addSkipNavigation parsedHtml =
     (case querySelector parsedHtml (tags [''body'']) of
        None \<Rightarrow> parsedHtml
      | Some body \<Rightarrow>
          if querySelector parsedHtml skipLinkSelector = None
          then upd body (prependChild skipLink) parsedHtml
          else parsedHtml)"

subsection \<open>The whole enhancer\<close>

definition enhanceWithAria :: "eenv \<Rightarrow> frontmatter \<Rightarrow> estate \<Rightarrow> estate result" where
  "enhanceWithAria ev fm st =
     (case st of (parsedHtml, k) \<Rightarrow>
        (let d1 = (case language fm of
                     None \<Rightarrow> parsedHtml
                   | Some l \<Rightarrow> if l = [] then parsedHtml else ensureHtmlLangAttribute parsedHtml l);
             d2 = ensureDocumentTitle d1 (title fm);
             d3 = addDocumentLandmarks d2;
             d4 = enhanceHeadings d3;
             d5 = enhanceLinks d4;
             st6 = enhanceTables (randomId ev) (d5, k)
         in bindR (enhanceForms ev st6)
              (\<lambda>st7. Inr (addSkipNavigation (enhanceCodeBlocks (fst st7)), snd st7))))"

section \<open>Example documents\<close>

definition heading :: "string \<Rightarrow> string \<Rightarrow> node" where
  "heading t s = Element t [] [Text s]"

definition page :: "node list \<Rightarrow> node" where
  "page cs = Element ''#document'' []
     [Element ''html'' [] [Element ''head'' [] [], Element ''body'' [] cs]]"

definition docH123 :: node where
  "docH123 = page [heading ''h1'' ''A'', heading ''h2'' ''B'', heading ''h3'' ''C'']"

definition docH124 :: node where
  "docH124 = page [heading ''h1'' ''A'', heading ''h2'' ''B'', heading ''h4'' ''C'']"

definition docH2324 :: node where
  "docH2324 = page [heading ''h2'' ''A'', heading ''h3'' ''B'', heading ''h2'' ''C'',
                    heading ''h4'' ''D'']"

definition docH2 :: node where
  "docH2 = page [heading ''h2'' ''A'', heading ''h3'' ''B'']"

definition imgEmptyAlt :: node where
  "imgEmptyAlt = Element ''img'' [(''src'', ''a.png''), (''alt'', '''')] []"

definition docEmptyAlt :: node where
  "docEmptyAlt = page [imgEmptyAlt]"

definition noStyle :: style where
  "noStyle = \<lparr>color = [], backgroundColor = [], fontSize = [], fontWeight = []\<rparr>"

text \<open>
  An environment whose parser returns the given document and whose external checks
  answer as given.
\<close>

definition envFor ::
  "node result \<Rightarrow> violation list result \<Rightarrow> vmessage list result \<Rightarrow>
   (node \<Rightarrow> path \<Rightarrow> style) option \<Rightarrow> env" where
  "envFor d a v g =
     \<lparr>parseHtml = (\<lambda>h. d), axeRun = (\<lambda>n. a), htmlValidator = (\<lambda>h. v),
      getComputedStyle = g, contrastRgb = (\<lambda>f b. None)\<rparr>"

definition cfgAll :: config where
  "cfgAll = \<lparr>checkWCAG = True, checkHeadingHierarchyOn = True, checkColorContrastOn = True,
             validateHTMLOn = True, checkARIA = True, checkKeyboardAccessibilityOn = True,
             checkScreenReaderAnnouncementsOn = True\<rparr>"

definition docBadRole :: node where
  "docBadRole = page [heading ''h2'' ''A'', Element ''div'' [(''role'', ''constructor'')] []]"

definition docPlain :: node where
  "docPlain = page [heading ''h2'' ''A'']"

text \<open>What the audit returns when neither the parser nor a check throws past its own handler.\<close>

definition auditIssues :: "config \<Rightarrow> env \<Rightarrow> string \<Rightarrow> node \<Rightarrow> issue list \<Rightarrow> issue list \<Rightarrow> issue list" where
  "auditIssues cfg ev html d ci ai =
     (if checkWCAG cfg then runAxeChecks (axeRun ev) d else []) @
     (if checkHeadingHierarchyOn cfg then checkHeadingHierarchy d else []) @
     ci @
     (if validateHTMLOn cfg then validateHTML (htmlValidator ev) html else []) @
     ai @
     (if checkKeyboardAccessibilityOn cfg then checkKeyboardAccessibility d else []) @
     (if checkScreenReaderAnnouncementsOn cfg then checkScreenReaderAnnouncements d else [])"

definition contrastResult :: "config \<Rightarrow> env \<Rightarrow> node \<Rightarrow> issue list result" where
  "contrastResult cfg ev d =
     (if checkColorContrastOn cfg
      then checkColorContrast (getComputedStyle ev) (contrastRgb ev) d else Inr [])"

definition ariaResult :: "config \<Rightarrow> node \<Rightarrow> issue list result" where
  "ariaResult cfg d = (if checkARIA cfg then checkARIAUsage d else Inr [])"

definition auditFailed :: "string \<Rightarrow> issue list" where
  "auditFailed m = [mkIssue Error (''Accessibility check failed: '' @ m) None]"

definition axeFailed :: "string \<Rightarrow> issue list" where
  "axeFailed m =
     [\<lparr>kind = Wcag, message = ''Error running axe checks: '' @ m, element = None,
       extra = [(''rule'', ''axe-error'')]\<rparr>]"

definition validationFailed :: "string \<Rightarrow> issue list" where
  "validationFailed m = [mkIssue Html (''HTML validation failed: '' @ m) None]"

definition envRecovered :: env where
  "envRecovered = envFor (Inr docPlain) (Inl ''boom'') (Inl ''timeout'') (Some (\<lambda>d p. noStyle))"

definition envBadRole :: env where
  "envBadRole = envFor (Inr docBadRole) (Inr []) (Inr []) (Some (\<lambda>d p. noStyle))"

definition envNoParse :: env where
  "envNoParse = envFor (Inl ''parse error'') (Inr []) (Inr []) None"

definition envNoStyle :: env where
  "envNoStyle = envFor (Inr docPlain) (Inr []) (Inr []) None"









definition envPlain :: eenv where
  "envPlain = \<lparr>randomId = (\<lambda>k. ''r'' @ showInt (int k)),
               selectorEngine = (\<lambda>t. Inl ''unsupported selector'')\<rparr>"

definition fmEmpty :: frontmatter where
  "fmEmpty = \<lparr>title = None, language = None\<rparr>"

definition docQuoteId :: node where
  "docQuoteId = page [Element ''input'' [(''id'', ''a'' @ dq @ ''b'')] []]"





text \<open>
  A function on nodes that changes attributes only, and the nodes that agree on
  everything but, possibly, their attributes.
\<close>

definition attrOnly :: "(node \<Rightarrow> node) \<Rightarrow> bool" where
  "attrOnly f = (\<forall>n. tagOf (f n) = tagOf n \<and> childNodes (f n) = childNodes n \<and>
                     isElement (f n) = isElement n \<and> textContent (f n) = textContent n)"

definition sameNode :: "bool \<Rightarrow> node \<Rightarrow> node \<Rightarrow> bool" where
  "sameNode withAttrs n' n =
     (tagOf n' = tagOf n \<and> isElement n' = isElement n \<and> textContent n' = textContent n \<and>
      (withAttrs \<longrightarrow> attrsOf n' = attrsOf n))"










section \<open>Attribute updates as data\<close>


type_synonym nodeOp = "path \<times> (node \<Rightarrow> node)"

definition applyOps :: "nodeOp list \<Rightarrow> node \<Rightarrow> node" where
  "applyOps ops t = fold (\<lambda>pf. upd (fst pf) (snd pf)) ops t"


definition attrFun :: "(node \<Rightarrow> node) \<Rightarrow> bool" where
  "attrFun f = (attrOnly f \<and> (\<forall>n n'. sameNode True n n' \<longrightarrow> sameNode True (f n) (f n')))"











section \<open>Properties of the heading check\<close>

lemma headingLoop_append:
  "headingLoop prev (xs @ ys) =
   headingLoop prev xs @ headingLoop (if xs = [] then prev else headingLevel (last xs)) ys"
  by (induction xs arbitrary: prev) auto

lemma matches_tags_iff:
  "matches d (tags ts) p = (\<exists>n. get d p = Some n \<and> isElement n \<and> tagOf n \<in> set ts)"
  by (auto simp: matches_def tags_def list_ex_iff matchComplex_def matchCompound_def
           split: option.splits)

lemma elementsAt_mem:
  "n \<in> set (elementsAt d ps) = (\<exists>p \<in> set ps. get d p = Some n)"
  by (force simp: elementsAt_def split: option.splits)

lemma headingsOf_mem:
  "n \<in> set (headingsOf d) =
   (\<exists>p \<in> set (paths d). get d p = Some n \<and> isElement n \<and>
       tagOf n \<in> {''h1'', ''h2'', ''h3'', ''h4'', ''h5'', ''h6''})"
  unfolding headingsOf_def elementsAt_mem querySelectorAll_def headingSelector_def
  by (auto simp: matches_tags_iff)

lemma headingLevel_tag:
  "headingLevel n = parseInt (charAt (toUpperCase (tagOf n)) 1)"
  by (simp add: headingLevel_def tagName_def)

lemma headingLevel_h:
  "tagOf n = ''h1'' \<Longrightarrow> headingLevel n = Some 1"
  "tagOf n = ''h2'' \<Longrightarrow> headingLevel n = Some 2"
  "tagOf n = ''h3'' \<Longrightarrow> headingLevel n = Some 3"
  "tagOf n = ''h4'' \<Longrightarrow> headingLevel n = Some 4"
  "tagOf n = ''h5'' \<Longrightarrow> headingLevel n = Some 5"
  "tagOf n = ''h6'' \<Longrightarrow> headingLevel n = Some 6"
  by (simp_all add: headingLevel_tag toUpperCase_def upperChar_def isLower_def charAt_def
        parseInt_def parseNat_def isSpace_def isDigit_def digitsVal_def digitVal_def)

lemma headingLevel_range:
  assumes "n \<in> set (headingsOf d)"
  shows "\<exists>l. headingLevel n = Some l \<and> 1 \<le> l \<and> l \<le> 6"
  using assms headingLevel_h[of n] unfolding headingsOf_mem by auto

lemma has_h1:
  assumes "n \<in> set (headingsOf d)" and "tagOf n = ''h1''"
  shows "querySelector d (tags [''h1'']) \<noteq> None"
proof -
  from assms obtain p where p: "p \<in> set (paths d)" "get d p = Some n" "isElement n"
    unfolding headingsOf_mem by auto
  with assms(2) have "matches d (tags [''h1'']) p" by (simp add: matches_tags_iff)
  with p(1) have "p \<in> set (querySelectorAll d (tags [''h1'']))"
    by (simp add: querySelectorAll_def)
  then show ?thesis by (auto simp: querySelector_def split: list.splits)
qed

lemma headings_h123:
  assumes "map tagOf (headingsOf d) = [''h1'', ''h2'', ''h3'']"
  shows "checkHeadingHierarchy d = []"
proof -
  from assms obtain a b c where hs: "headingsOf d = [a, b, c]"
    and t: "tagOf a = ''h1''" "tagOf b = ''h2''" "tagOf c = ''h3''"
    by (auto simp: map_eq_Cons_conv)
  have "querySelector d (tags [''h1'']) \<noteq> None"
    using has_h1[of a d] hs t by simp
  then show ?thesis
    using hs t by (simp add: checkHeadingHierarchy_def lacksH1_def headingStep_def headingLevel_h)
qed

lemma headings_h124:
  assumes "map tagOf (headingsOf d) = [''h1'', ''h2'', ''h4'']"
  shows "checkHeadingHierarchy d =
           [mkIssue Heading ''Heading level skipped from h2 to h4'' (Some (headingsOf d ! 2))]"
proof -
  from assms obtain a b c where hs: "headingsOf d = [a, b, c]"
    and t: "tagOf a = ''h1''" "tagOf b = ''h2''" "tagOf c = ''h4''"
    by (auto simp: map_eq_Cons_conv)
  have "querySelector d (tags [''h1'']) \<noteq> None"
    using has_h1[of a d] hs t by simp
  moreover have "showNum (Some 2) = ''2''" by code_simp
  moreover have "showNum (Some 4) = ''4''" by code_simp
  ultimately show ?thesis
    using hs t by (simp add: checkHeadingHierarchy_def lacksH1_def headingStep_def headingLevel_h)
qed

lemma headings_backward:
  assumes hs: "headingsOf d = xs @ p # c # ys"
    and lp: "headingLevel p = Some lp" and lc: "headingLevel c = Some lc" and le: "lc \<le> lp"
  shows "headingLoop (Some 0) (headingsOf d) =
         headingLoop (Some 0) (xs @ [p]) @ headingLoop (Some lc) ys"
proof -
  have "p \<in> set (headingsOf d)" using hs by simp
  from headingLevel_range[OF this] lp have "1 \<le> lp" by auto
  then have step: "headingStep (Some lp) c = []"
    using lc le by (simp add: headingStep_def)
  have "headingLoop (Some 0) ((xs @ [p]) @ c # ys) =
        headingLoop (Some 0) (xs @ [p]) @ headingLoop (headingLevel p) (c # ys)"
    by (subst headingLoop_append) simp
  then show ?thesis
    using hs by (simp add: lp lc step)
qed

lemma checkHeadingHierarchy_nonempty:
  "headingsOf d \<noteq> [] \<Longrightarrow>
   checkHeadingHierarchy d = lacksH1 d @ headingLoop (Some 0) (headingsOf d)"
  by (simp add: checkHeadingHierarchy_def)

text \<open>
  Claim C6. The heading check reports nothing for the heading sequence h1, h2, h3. For
  h1, h2, h4 it reports exactly one issue, the skip from h2 to h4, on the h4. A heading
  whose level is at most the level of the heading just before it contributes no issue:
  the issues of the document are those of the headings up to its predecessor followed by
  those of the headings after it.
\<close>

theorem C6_heading_hierarchy:
  "(map tagOf (headingsOf d1) = [''h1'', ''h2'', ''h3''] \<longrightarrow> checkHeadingHierarchy d1 = []) \<and>
   (map tagOf (headingsOf d2) = [''h1'', ''h2'', ''h4''] \<longrightarrow>
      checkHeadingHierarchy d2 =
        [mkIssue Heading ''Heading level skipped from h2 to h4'' (Some (headingsOf d2 ! 2))]) \<and>
   (headingsOf d3 = xs @ p # c # ys \<and> headingLevel p = Some lp \<and> headingLevel c = Some lc \<and>
      lc \<le> lp \<longrightarrow>
      checkHeadingHierarchy d3 =
        lacksH1 d3 @ headingLoop (Some 0) (xs @ [p]) @ headingLoop (Some lc) ys)"
proof (intro conjI impI)
  assume "map tagOf (headingsOf d1) = [''h1'', ''h2'', ''h3'']"
  then show "checkHeadingHierarchy d1 = []" by (rule headings_h123)
next
  assume "map tagOf (headingsOf d2) = [''h1'', ''h2'', ''h4'']"
  then show "checkHeadingHierarchy d2 =
      [mkIssue Heading ''Heading level skipped from h2 to h4'' (Some (headingsOf d2 ! 2))]"
    by (rule headings_h124)
next
  assume a: "headingsOf d3 = xs @ p # c # ys \<and> headingLevel p = Some lp \<and>
             headingLevel c = Some lc \<and> lc \<le> lp"
  then have "headingsOf d3 \<noteq> []" by simp
  then show "checkHeadingHierarchy d3 =
      lacksH1 d3 @ headingLoop (Some 0) (xs @ [p]) @ headingLoop (Some lc) ys"
    using a headings_backward[of d3 xs p c ys lp lc]
    by (simp add: checkHeadingHierarchy_nonempty)
qed

theorem C6_heading_hierarchy_witness:
  "map tagOf (headingsOf docH123) = [''h1'', ''h2'', ''h3''] \<and>
   checkHeadingHierarchy docH123 = [] \<and>
   map tagOf (headingsOf docH124) = [''h1'', ''h2'', ''h4''] \<and>
   checkHeadingHierarchy docH124 =
     [mkIssue Heading ''Heading level skipped from h2 to h4'' (Some (heading ''h4'' ''C''))] \<and>
   headingsOf docH2324 =
     [heading ''h2'' ''A''] @ heading ''h3'' ''B'' # heading ''h2'' ''C'' # [heading ''h4'' ''D''] \<and>
   headingLevel (heading ''h3'' ''B'') = Some 3 \<and> headingLevel (heading ''h2'' ''C'') = Some 2 \<and>
   checkHeadingHierarchy docH2324 =
     lacksH1 docH2324 @ headingLoop (Some 0) ([heading ''h2'' ''A''] @ [heading ''h3'' ''B'']) @
     headingLoop (Some 2) [heading ''h4'' ''D'']"
proof -
  have a: "map tagOf (headingsOf docH123) = [''h1'', ''h2'', ''h3'']" by code_simp
  have b: "map tagOf (headingsOf docH124) = [''h1'', ''h2'', ''h4'']" by code_simp
  have b': "headingsOf docH124 ! 2 = heading ''h4'' ''C''" by code_simp
  have c: "headingsOf docH2324 =
     [heading ''h2'' ''A''] @ heading ''h3'' ''B'' # heading ''h2'' ''C'' # [heading ''h4'' ''D'']"
    by code_simp
  have lp: "headingLevel (heading ''h3'' ''B'') = Some 3" by code_simp
  have lc: "headingLevel (heading ''h2'' ''C'') = Some 2" by code_simp
  show ?thesis
    using C6_heading_hierarchy[of docH123 docH124 docH2324 "[heading ''h2'' ''A'']"
        "heading ''h3'' ''B''" "heading ''h2'' ''C''" "[heading ''h4'' ''D'']" 3 2]
      a b b' c lp lc
    by simp
qed

text \<open>
  Claim C10. When the first heading of a document has level L with L at least 2, the
  heading check reports, for that heading, that the document does not start with an h1
  and, right after it, a skip from h0 to hL: the first heading is compared with the
  initial previous level 0.
\<close>

theorem C10_first_heading_skip_from_h0:
  assumes "headingsOf d = h # hs" and "headingLevel h = Some L" and "2 \<le> L"
  shows "checkHeadingHierarchy d =
           lacksH1 d @
           [mkIssue Heading
              (''Document doesn't start with an h1. First heading is '' @ tagName h) (Some h),
            mkIssue Heading (''Heading level skipped from h0 to h'' @ showInt L) (Some h)] @
           headingLoop (Some L) hs"
proof -
  have "showNum (Some 0) = ''0''" by code_simp
  then show ?thesis
    using assms
    by (simp add: checkHeadingHierarchy_nonempty headingStep_def showNum_def)
qed

theorem C10_first_heading_skip_from_h0_witness:
  "headingsOf docH2 = heading ''h2'' ''A'' # [heading ''h3'' ''B''] \<and>
   headingLevel (heading ''h2'' ''A'') = Some 2 \<and> (2::int) \<le> 2 \<and>
   checkHeadingHierarchy docH2 =
     lacksH1 docH2 @
     [mkIssue Heading ''Document doesn't start with an h1. First heading is H2''
        (Some (heading ''h2'' ''A'')),
      mkIssue Heading ''Heading level skipped from h0 to h2'' (Some (heading ''h2'' ''A''))] @
     headingLoop (Some 2) [heading ''h3'' ''B'']"
proof -
  have a: "headingsOf docH2 = heading ''h2'' ''A'' # [heading ''h3'' ''B'']" by code_simp
  have b: "headingLevel (heading ''h2'' ''A'') = Some 2" by code_simp
  have c: "tagName (heading ''h2'' ''A'') = ''H2''" by code_simp
  have d: "showInt 2 = ''2''" by code_simp
  show ?thesis
    using C10_first_heading_skip_from_h0[OF a b] a b c d by simp
qed

section \<open>Properties of the screen-reader check\<close>

lemma emptyAltReported_never: "\<not> emptyAltReported d p img"
  by (simp add: emptyAltReported_def strictEq_def jsNot_def)

lemma imageIssues_never_empty_alt:
  "mkIssue ScreenReader ''Non-decorative image has empty alt text'' e \<notin> set (imageIssues d p)"
  by (auto simp: imageIssues_def emptyAltReported_never mkIssue_def split: option.splits)

text \<open>
  Claim C1. The claim asks for the issue `Non-decorative image has empty alt text' on an
  image with an empty alt that has no decorative class, is not inside a figure and is not
  aria-hidden. On such an image the check reports nothing: the last conjunct of the
  source's condition compares a boolean with the string true and is never satisfied.
\<close>

theorem C1_empty_alt_not_reported:
  "get docEmptyAlt [0, 1, 0] = Some imgEmptyAlt \<and>
   getAttribute imgEmptyAlt ''alt'' = Some [] \<and>
   ''decorative'' \<notin> set (classList imgEmptyAlt) \<and>
   closest docEmptyAlt [0, 1, 0] figureSelector = None \<and>
   getAttribute imgEmptyAlt ''aria-hidden'' = None \<and>
   imageIssues docEmptyAlt [0, 1, 0] = [] \<and>
   checkScreenReaderAnnouncements docEmptyAlt = []"
  by code_simp

section \<open>Properties of the auditor\<close>

text \<open>
  Claim C2, as the claim states it, fails: a role attribute that names a member of
  Object.prototype makes the ARIA check throw; the handler around the whole audit then
  returns one error issue, and the issues of the heading check, which ran before, are
  not in the returned list.
\<close>

theorem C2_checks_not_isolated_counterexample:
  "parseHtml envBadRole ''x'' = Inr docBadRole \<and>
   checkARIAUsage docBadRole = Inl ''requiredAttributes is not iterable'' \<and>
   length (checkHeadingHierarchy docBadRole) = 3 \<and>
   checkAccessibility cfgAll envBadRole ''x'' =
     [mkIssue Error ''Accessibility check failed: requiredAttributes is not iterable'' None] \<and>
   \<not> set (checkHeadingHierarchy docBadRole) \<subseteq> set (checkAccessibility cfgAll envBadRole ''x'')"
proof -
  have a: "parseHtml envBadRole ''x'' = Inr docBadRole"
    by (simp add: envBadRole_def envFor_def)
  have b: "checkARIAUsage docBadRole = Inl ''requiredAttributes is not iterable''"
    by code_simp
  have c: "map kind (checkHeadingHierarchy docBadRole) = [Heading, Heading, Heading]"
    by code_simp
  have d: "checkAccessibility cfgAll envBadRole ''x'' =
     [mkIssue Error ''Accessibility check failed: requiredAttributes is not iterable'' None]"
    by code_simp
  from c obtain i where i: "i \<in> set (checkHeadingHierarchy docBadRole)" "kind i = Heading"
    by (cases "checkHeadingHierarchy docBadRole") auto
  then have "i \<notin> set (checkAccessibility cfgAll envBadRole ''x'')"
    unfolding d by (auto simp: mkIssue_def)
  with i(1) have e: "\<not> set (checkHeadingHierarchy docBadRole) \<subseteq>
      set (checkAccessibility cfgAll envBadRole ''x'')" by blast
  from c have "length (checkHeadingHierarchy docBadRole) = 3"
    using length_map[of kind "checkHeadingHierarchy docBadRole"] by simp
  with a b d e show ?thesis by blast
qed

text \<open>
  Claim C2, amended. The audit itself never raises. The axe check and the HTML-validity
  check are each recoverable on their own: an exception of the external package is
  caught inside the check and becomes a single issue of kind wcag or html, and the
  audit goes on. An exception while parsing, in the contrast check or in the ARIA check
  is caught only by the handler around the whole audit, which returns a single issue
  of kind error carrying the message, in place of every other issue. When none of these
  three throws, the result is the concatenation of the issues of the enabled checks in
  the fixed order.
\<close>

theorem C2_audit_recovery:
  "(parseHtml ev html = Inl m \<longrightarrow> checkAccessibility cfg ev html = auditFailed m) \<and>
   (parseHtml ev html = Inr d \<and> contrastResult cfg ev d = Inl m \<longrightarrow>
      checkAccessibility cfg ev html = auditFailed m) \<and>
   (parseHtml ev html = Inr d \<and> contrastResult cfg ev d = Inr ci \<and> ariaResult cfg d = Inl m \<longrightarrow>
      checkAccessibility cfg ev html = auditFailed m) \<and>
   (parseHtml ev html = Inr d \<and> contrastResult cfg ev d = Inr ci \<and> ariaResult cfg d = Inr ai \<longrightarrow>
      checkAccessibility cfg ev html = auditIssues cfg ev html d ci ai) \<and>
   (axeRun ev d = Inl m \<longrightarrow> runAxeChecks (axeRun ev) d = axeFailed m) \<and>
   (htmlValidator ev html = Inl m \<longrightarrow> validateHTML (htmlValidator ev) html = validationFailed m)"
  by (auto simp: checkAccessibility_def auditBody_def bindR_def contrastResult_def ariaResult_def
      auditFailed_def auditIssues_def runAxeChecks_def axeFailed_def validateHTML_def
      validationFailed_def Let_def)

theorem C2_audit_recovery_witness:
  "checkAccessibility cfgAll envNoParse ''x'' = auditFailed ''parse error'' \<and>
   checkAccessibility cfgAll envNoStyle ''x'' = auditFailed ''getComputedStyle is not defined'' \<and>
   checkAccessibility cfgAll envBadRole ''x'' = auditFailed ''requiredAttributes is not iterable'' \<and>
   checkAccessibility cfgAll envRecovered ''x'' =
     axeFailed ''boom'' @ checkHeadingHierarchy docPlain @ validationFailed ''timeout'' @
     checkKeyboardAccessibility docPlain @ checkScreenReaderAnnouncements docPlain"
proof -
  have p1: "parseHtml envNoParse ''x'' = Inl ''parse error''"
    by (simp add: envNoParse_def envFor_def)
  have p2: "parseHtml envNoStyle ''x'' = Inr docPlain"
    by (simp add: envNoStyle_def envFor_def)
  have c2: "contrastResult cfgAll envNoStyle docPlain = Inl ''getComputedStyle is not defined''"
    by code_simp
  have p3: "parseHtml envBadRole ''x'' = Inr docBadRole"
    by (simp add: envBadRole_def envFor_def)
  have c3: "contrastResult cfgAll envBadRole docBadRole = Inr []"
    by code_simp
  have a3: "ariaResult cfgAll docBadRole = Inl ''requiredAttributes is not iterable''"
    by code_simp
  have p4: "parseHtml envRecovered ''x'' = Inr docPlain"
    by (simp add: envRecovered_def envFor_def)
  have c4: "contrastResult cfgAll envRecovered docPlain = Inr []"
    by code_simp
  have a4: "ariaResult cfgAll docPlain = Inr []"
    by code_simp
  have x4: "axeRun envRecovered docPlain = Inl ''boom''"
    by (simp add: envRecovered_def envFor_def)
  have v4: "htmlValidator envRecovered ''x'' = Inl ''timeout''"
    by (simp add: envRecovered_def envFor_def)
  have cf: "checkWCAG cfgAll" "checkHeadingHierarchyOn cfgAll" "validateHTMLOn cfgAll"
    "checkKeyboardAccessibilityOn cfgAll" "checkScreenReaderAnnouncementsOn cfgAll"
    by (simp_all add: cfgAll_def)
  have r1: "checkAccessibility cfgAll envNoParse ''x'' = auditFailed ''parse error''"
    using C2_audit_recovery[of envNoParse "''x''" "''parse error''" cfgAll] p1 by blast
  have r2: "checkAccessibility cfgAll envNoStyle ''x'' =
      auditFailed ''getComputedStyle is not defined''"
    using C2_audit_recovery[of envNoStyle "''x''" "''getComputedStyle is not defined''" cfgAll
        docPlain] p2 c2 by blast
  have r3: "checkAccessibility cfgAll envBadRole ''x'' =
      auditFailed ''requiredAttributes is not iterable''"
    using C2_audit_recovery[of envBadRole "''x''" "''requiredAttributes is not iterable''" cfgAll
        docBadRole "[]"] p3 c3 a3 by blast
  have r4: "checkAccessibility cfgAll envRecovered ''x'' =
      auditIssues cfgAll envRecovered ''x'' docPlain [] []"
    using C2_audit_recovery[of envRecovered "''x''" _ cfgAll docPlain "[]" "[]"] p4 c4 a4
    by blast
  have r5: "runAxeChecks (axeRun envRecovered) docPlain = axeFailed ''boom''"
    using C2_audit_recovery[of envRecovered "''x''" "''boom''" cfgAll docPlain] x4 by blast
  have r6: "validateHTML (htmlValidator envRecovered) ''x'' = validationFailed ''timeout''"
    using C2_audit_recovery[of envRecovered "''x''" "''timeout''" cfgAll docPlain] v4 by blast
  show ?thesis
    using r1 r2 r3 r4 r5 r6 cf by (simp add: auditIssues_def)
qed

section \<open>Properties of the contrast check\<close>





















section \<open>Attribute updates leave the shape of the tree alone\<close>



lemma textContent_childNodes: "isElement n \<Longrightarrow> textContent n = concat (map textContent (childNodes n))"
  by (cases n) simp_all



















section \<open>Properties of the enhancer\<close>

text \<open>
  Claim C8. The claim says that the enhancer never raises. An input element whose id
  holds a double quote makes the form pass build the selector text
  label[for="a"b"], which is not a selector: querySelector throws, and nothing in the
  enhancer catches it.
\<close>

theorem C8_enhancer_raises_on_quoted_id:
  "enhanceWithAria envPlain fmEmpty (docQuoteId, 0) =
     Inl ([CHR 0x27] @ ''label[for='' @ dq @ ''a'' @ dq @ ''b'' @ dq @ '']'' @ [CHR 0x27] @
          '' is not a valid selector'')"
  by code_simp



section \<open>Properties of the landmark pass\<close>


























section \<open>Properties of the heading pass\<close>

lemma attrOnly_comp: "attrOnly f \<Longrightarrow> attrOnly g \<Longrightarrow> attrOnly (\<lambda>n. f (g n))"
  by (simp add: attrOnly_def)

lemma attrOnly_if: "attrOnly f \<Longrightarrow> attrOnly g \<Longrightarrow> attrOnly (\<lambda>n. if c n then f n else g n)"
  by (simp add: attrOnly_def)

lemma attrOnly_id: "attrOnly (\<lambda>n. n)"
  by (simp add: attrOnly_def)












section \<open>Passes applied to their own result\<close>




lemma headingLevel_setAttr: "headingLevel (setAttr k v n) = headingLevel n"
  by (cases n) (simp_all add: headingLevel_def tagName_def)

















section \<open>Lists of attribute updates\<close>







lemma sameNode_sym: "sameNode b n n' \<Longrightarrow> sameNode b n' n"
  by (simp add: sameNode_def)





section \<open>The landmark pass as a list of attribute updates\<close>


lemma applyOps_Nil: "applyOps [] t = t"
  by (simp add: applyOps_def)

lemma applyOps_single: "applyOps [(p, f)] t = upd p f t"
  by (simp add: applyOps_def)












lemma attrFun_comp: "attrFun f \<Longrightarrow> attrFun g \<Longrightarrow> attrFun (\<lambda>n. f (g n))"
  by (simp add: attrFun_def attrOnly_def)








subsection \<open>Runs of attribute writes are idempotent\<close>























subsection \<open>The candidates for the main landmark stay the same\<close>











subsection \<open>The main element that wraps the body is the only one\<close>







subsection \<open>The landmark pass is idempotent\<close>





section \<open>The passes that are idempotent\<close>




end
